theory Spec2Isabelle
  imports Main
begin

section \<open>Values, objects, stores and the environment\<close>

text \<open>
  The program is \<^verbatim>\<open>packages/wrapper/src/index.tsx\<close>. JavaScript values are primitives
  or references to objects; objects live in a heap, so that a write to an object is seen
  through every reference to it. Numbers are integers (floating point and NaN are not
  modelled). Only own properties are modelled (no prototype chain): the program reads
  the keys \<^verbatim>\<open>initialState\<close>, \<^verbatim>\<open>initialProps\<close>, \<^verbatim>\<open>pageProps\<close> and \<^verbatim>\<open>props\<close> only, and none
  of them names a built-in property.
\<close>

type_synonym addr = nat
type_synonym store_ref = nat
type_synonym req_ref = nat

datatype val = VUndefined | VNull | VBool bool | VNum int | VStr string | VRef addr

type_synonym obj = "string \<rightharpoonup> val"

text \<open>Whatever a user-supplied function throws.\<close>

datatype error = Thrown string

text \<open>A Redux action \<^verbatim>\<open>{type, payload}\<close>.\<close>

record action =
  type :: string
  payload :: val

text \<open>
  A Redux store: its current state and its reducer. \<^verbatim>\<open>dispatch\<close> replaces the state by
  the reducer's result, \<^verbatim>\<open>getState\<close> reads it. The reducer is the store's own (Redux
  requires it pure), so it is a total function on values.
\<close>

record Store =
  state :: val
  reducer :: "val \<Rightarrow> action \<Rightarrow> val"

text \<open>
  The union type \<^verbatim>\<open>Context\<close>, with the three fields the program looks at: \<^verbatim>\<open>req\<close> (a page
  or server-side context), \<^verbatim>\<open>store\<close> (set by this program) and \<^verbatim>\<open>ctx\<close> (an application
  context nests the page context there). A request is known by its identity.
\<close>

datatype Context = Context (req: "req_ref option") (store: "store_ref option") (ctx: "Context option")

datatype entry = Log string | Warn string

text \<open>
  The environment. \<^verbatim>\<open>window\<close> is \<open>None\<close> where \<^verbatim>\<open>typeof window === 'undefined'\<close> (the
  server); on the client it holds the properties of \<^verbatim>\<open>window\<close> that this program writes
  and reads, the stores registered under a store key (a store key that names another
  property of \<^verbatim>\<open>window\<close> is outside the model). \<open>reqStore\<close> is the field \<^verbatim>\<open>__nextReduxWrapperStore\<close> of every request object.
  Stores and objects are allocated at \<open>nextStore\<close> and \<open>nextAddr\<close>. \<open>makeStoreCalls\<close> counts
  the invocations of the user's factory: the program does not read it; it makes an
  invocation visible and lets a factory differ from one invocation to the next.
\<close>

record world =
  window :: "(string \<rightharpoonup> store_ref) option"
  reqStore :: "req_ref \<rightharpoonup> store_ref"
  stores :: "store_ref \<Rightarrow> Store"
  nextStore :: nat
  heap :: "addr \<Rightarrow> obj"
  nextAddr :: nat
  makeStoreCalls :: nat
  console :: "entry list"

text \<open>
  \<^verbatim>\<open>Config\<close>. The hooks are the user's and may throw. \<^verbatim>\<open>debug\<close> is false when unset.
\<close>

record Config =
  serializeState :: "(val \<Rightarrow> error + val) option"
  deserializeState :: "(val \<Rightarrow> error + val) option"
  storeKey :: "string option"
  debug :: bool

text \<open>
  \<^verbatim>\<open>MakeStore\<close>: the user's factory. It is an impure function (it may succeed on one call
  and throw on another), so it reads the environment; it returns a new store or throws.
\<close>

type_synonym MakeStore = "Context \<Rightarrow> world \<Rightarrow> error + Store"

text \<open>
  A user callback (\<^verbatim>\<open>getInitialProps\<close>, \<^verbatim>\<open>getStaticProps\<close>, \<^verbatim>\<open>getServerSideProps\<close>): it is
  given the context, may dispatch and allocate, and returns a value or throws.
\<close>

type_synonym Callback = "Context \<Rightarrow> world \<Rightarrow> (error + val) \<times> world"

definition HYDRATE :: string where
  "HYDRATE = ''__NEXT_REDUX_WRAPPER_HYDRATE__''"

definition STOREKEY :: string where
  "STOREKEY = ''__NEXT_REDUX_WRAPPER_STORE__''"

text \<open>JavaScript truthiness: \<^verbatim>\<open>undefined\<close>, \<^verbatim>\<open>null\<close>, \<^verbatim>\<open>false\<close>, \<^verbatim>\<open>0\<close> and \<^verbatim>\<open>''\<close> are falsy.\<close>

fun truthy :: "val \<Rightarrow> bool" where
  "truthy VUndefined = False"
| "truthy VNull = False"
| "truthy (VBool b) = b"
| "truthy (VNum n) = (n \<noteq> 0)"
| "truthy (VStr s) = (s \<noteq> [])"
| "truthy (VRef a) = True"

definition getIsServer :: "world \<Rightarrow> bool" where
  "getIsServer w = (window w = None)"

definition getDeserializedState :: "val \<Rightarrow> Config \<Rightarrow> error + val" where
  "getDeserializedState initialState config =
     (case deserializeState config of Some f \<Rightarrow> f initialState | None \<Rightarrow> Inr initialState)"

definition getSerializedState :: "val \<Rightarrow> Config \<Rightarrow> error + val" where
  "getSerializedState st config =
     (case serializeState config of Some f \<Rightarrow> f st | None \<Rightarrow> Inr st)"

text \<open>\<^verbatim>\<open>storeKey || STOREKEY\<close>: an unset key and the empty string both give the default.\<close>

definition getStoreKey :: "Config \<Rightarrow> string" where
  "getStoreKey config =
     (case storeKey config of None \<Rightarrow> STOREKEY | Some k \<Rightarrow> if k = [] then STOREKEY else k)"

definition getState :: "store_ref \<Rightarrow> world \<Rightarrow> val" where
  "getState s w = state (stores w s)"

definition dispatch :: "store_ref \<Rightarrow> action \<Rightarrow> world \<Rightarrow> world" where
  "dispatch s a w =
     w\<lparr>stores := (stores w)(s := (stores w s)\<lparr>state := reducer (stores w s) (state (stores w s)) a\<rparr>)\<rparr>"

section \<open>initStore\<close>

text \<open>
  \<^verbatim>\<open>const createStore = () => makeStore(context)\<close>. The store that the factory returns is
  a new object: it gets the next store reference.
\<close>

definition createStore :: "MakeStore \<Rightarrow> Context \<Rightarrow> world \<Rightarrow> (error + store_ref) \<times> world" where
  "createStore makeStore context w =
     (let w1 = w\<lparr>makeStoreCalls := Suc (makeStoreCalls w)\<rparr> in
      case makeStore context w of
        Inl e \<Rightarrow> (Inl e, w1)
      | Inr st \<Rightarrow>
          (Inr (nextStore w1),
           w1\<lparr>stores := (stores w1)(nextStore w1 := st), nextStore := Suc (nextStore w1)\<rparr>))"

text \<open>
  The request that \<^verbatim>\<open>initStore\<close> finds:
  \<^verbatim>\<open>let req; if (c.req) req = c.req; if (c.ctx && c.ctx.req) req = c.ctx.req;\<close>
\<close>

definition requestOf :: "Context \<Rightarrow> req_ref option" where
  "requestOf c =
     (let r = (case req c of Some q \<Rightarrow> Some q | None \<Rightarrow> None) in
      case ctx c of
        Some cx \<Rightarrow> (case req cx of Some q \<Rightarrow> Some q | None \<Rightarrow> r)
      | None \<Rightarrow> r)"

definition initStore :: "MakeStore \<Rightarrow> Config \<Rightarrow> Context \<Rightarrow> world \<Rightarrow> (error + store_ref) \<times> world" where
  "initStore makeStore config context w =
     (let k = getStoreKey config in
      case window w of
        None \<Rightarrow>
          (case requestOf context of
             Some r \<Rightarrow>
               (case reqStore w r of
                  Some s \<Rightarrow> (Inr s, w)
                | None \<Rightarrow>
                    (case createStore makeStore context w of
                       (Inl e, w1) \<Rightarrow> (Inl e, w1)
                     | (Inr s, w1) \<Rightarrow> (Inr s, w1\<lparr>reqStore := (reqStore w1)(r \<mapsto> s)\<rparr>)))
           | None \<Rightarrow> createStore makeStore context w)
      | Some win \<Rightarrow>
          (case win k of
             Some s \<Rightarrow> (Inr s, w)
           | None \<Rightarrow>
               (case createStore makeStore context w of
                  (Inl e, w1) \<Rightarrow> (Inl e, w1)
                | (Inr s, w1) \<Rightarrow> (Inr s, w1\<lparr>window := Some (win(k \<mapsto> s))\<rparr>))))"

section \<open>Objects in the heap\<close>

text \<open>An object literal, a spread copy and a rest pattern all create a new object.\<close>

definition alloc :: "obj \<Rightarrow> world \<Rightarrow> addr \<times> world" where
  "alloc ob w = (nextAddr w, w\<lparr>heap := (heap w)(nextAddr w := ob), nextAddr := Suc (nextAddr w)\<rparr>)"

definition digitChar :: "nat \<Rightarrow> char" where
  "digitChar d = ''0123456789'' ! d"

function showNat :: "nat \<Rightarrow> string" where
  "showNat n = (if n < 10 then [digitChar n] else showNat (n div 10) @ [digitChar (n mod 10)])"
  by pat_completeness auto
termination
  by (relation "measure id") auto

declare showNat.simps [simp del]

text \<open>
  The own enumerable properties of a value, which a spread \<^verbatim>\<open>{...v}\<close> and a rest pattern
  copy: the fields of an object, the indexed characters of a string, nothing for the
  other primitives.
\<close>

definition ownProps :: "world \<Rightarrow> val \<Rightarrow> obj" where
  "ownProps w v =
     (case v of
        VRef a \<Rightarrow> heap w a
      | VStr s \<Rightarrow> map_of (zip (map showNat [0..<length s]) (map (\<lambda>c. VStr [c]) s))
      | _ \<Rightarrow> Map.empty)"

text \<open>
  Reading a property, \<^verbatim>\<open>v.k\<close> or \<^verbatim>\<open>v?.k\<close>: a missing one is \<^verbatim>\<open>undefined\<close>. The program
  reads a property of a value that may be \<^verbatim>\<open>undefined\<close> or \<^verbatim>\<open>null\<close> only through \<^verbatim>\<open>?.\<close> or
  behind a truthiness test, so no read throws.
\<close>

definition getProp :: "world \<Rightarrow> val \<Rightarrow> string \<Rightarrow> val" where
  "getProp w v k = (case ownProps w v k of Some x \<Rightarrow> x | None \<Rightarrow> VUndefined)"



text \<open>A reference into the part of the heap that is in use; a primitive is always so.\<close>

definition allocated :: "world \<Rightarrow> val \<Rightarrow> bool" where
  "allocated w v = (case v of VRef a \<Rightarrow> a < nextAddr w | _ \<Rightarrow> True)"

definition consoleLog :: "string \<Rightarrow> world \<Rightarrow> world" where
  "consoleLog msg w = w\<lparr>console := console w @ [Log msg]\<rparr>"

definition consoleWarn :: "string \<Rightarrow> world \<Rightarrow> world" where
  "consoleWarn msg w = w\<lparr>console := console w @ [Warn msg]\<rparr>"

section \<open>createWrapper: the data-loading phases\<close>

text \<open>\<^verbatim>\<open>{...context, store}\<close>\<close>

definition withStore :: "store_ref \<Rightarrow> Context \<Rightarrow> Context" where
  "withStore s c = Context (req c) (Some s) (ctx c)"

text \<open>\<^verbatim>\<open>{...context, ctx: {...context.ctx, store}}\<close>\<close>

definition withCtxStore :: "store_ref \<Rightarrow> Context \<Rightarrow> Context" where
  "withCtxStore s c =
     Context (req c) (store c)
       (Some (case ctx c of Some cx \<Rightarrow> withStore s cx | None \<Rightarrow> Context None (Some s) None))"

text \<open>
  \<^verbatim>\<open>makeProps({callback, context, isApp})\<close>. The result \<^verbatim>\<open>{initialProps, initialState}\<close> is
  a new object. \<^verbatim>\<open>callback\<close> has type \<^verbatim>\<open>any\<close> and is tested before it is called.
\<close>

definition makeProps ::
  "MakeStore \<Rightarrow> Config \<Rightarrow> Callback option \<Rightarrow> Context \<Rightarrow> bool \<Rightarrow> world \<Rightarrow> (error + val) \<times> world" where
  "makeProps makeStore config callback context isApp w =
     (case initStore makeStore config context w of
        (Inl e, w1) \<Rightarrow> (Inl e, w1)
      | (Inr s, w1) \<Rightarrow>
          (let w2 = (if debug config then consoleLog ''1. getProps created store with state'' w1 else w1) in
           case (case callback of
                   None \<Rightarrow> (Inr VUndefined, w2)
                 | Some cb \<Rightarrow> cb (if isApp then withCtxStore s context else withStore s context) w2) of
             (Inl e, w3) \<Rightarrow> (Inl e, w3)
           | (Inr r, w3) \<Rightarrow>
               (case (if truthy r then (r, w3)
                      else (case alloc Map.empty w3 of (a, w') \<Rightarrow> (VRef a, w'))) of
                  (initialProps, w4) \<Rightarrow>
                    (let w5 = (if debug config
                               then consoleLog ''3. getProps after dispatches has store state'' w4 else w4);
                         st = getState s w5 in
                     case (if getIsServer w5 then getSerializedState st config else Inr st) of
                       Inl e \<Rightarrow> (Inl e, w5)
                     | Inr initialState \<Rightarrow>
                         (case alloc [''initialProps'' \<mapsto> initialProps, ''initialState'' \<mapsto> initialState] w5 of
                            (a, w6) \<Rightarrow> (Inr (VRef a), w6))))))"

definition getInitialPageProps :: "MakeStore \<Rightarrow> Config \<Rightarrow> Callback \<Rightarrow> Context \<Rightarrow> world \<Rightarrow> (error + val) \<times> world" where
  "getInitialPageProps makeStore config callback context w =
     (case store context of
        Some s \<Rightarrow> callback context (consoleWarn ''No need to wrap pages if _app was wrapped'' w)
      | None \<Rightarrow> makeProps makeStore config (Some callback) context False w)"

definition getInitialAppProps :: "MakeStore \<Rightarrow> Config \<Rightarrow> Callback \<Rightarrow> Context \<Rightarrow> world \<Rightarrow> (error + val) \<times> world" where
  "getInitialAppProps makeStore config callback context w =
     makeProps makeStore config (Some callback) context True w"

text \<open>
  \<^verbatim>\<open>getStaticProps\<close>:
  \<^verbatim>\<open>const {initialProps: {props, ...settings}, ...wrapperProps} = await makeProps({callback, context});\<close>
  \<^verbatim>\<open>return {...settings, props: {...wrapperProps, ...props}};\<close>
\<close>

definition getStaticProps :: "MakeStore \<Rightarrow> Config \<Rightarrow> Callback option \<Rightarrow> Context \<Rightarrow> world \<Rightarrow> (error + val) \<times> world" where
  "getStaticProps makeStore config callback context w =
     (case makeProps makeStore config callback context False w of
        (Inl e, w1) \<Rightarrow> (Inl e, w1)
      | (Inr res, w1) \<Rightarrow>
          (let initialProps = getProp w1 res ''initialProps'';
               props = getProp w1 initialProps ''props'';
               settings = (ownProps w1 initialProps)(''props'' := None);
               wrapperProps = (ownProps w1 res)(''initialProps'' := None) in
           case alloc (wrapperProps ++ ownProps w1 props) w1 of
             (a, w2) \<Rightarrow>
               (case alloc (settings(''props'' \<mapsto> VRef a)) w2 of
                  (b, w3) \<Rightarrow> (Inr (VRef b), w3))))"

text \<open>\<^verbatim>\<open>return await getStaticProps(callback as any)(context); // just not to repeat myself\<close>\<close>

definition getServerSideProps :: "MakeStore \<Rightarrow> Config \<Rightarrow> Callback option \<Rightarrow> Context \<Rightarrow> world \<Rightarrow> (error + val) \<times> world" where
  "getServerSideProps makeStore config callback context w =
     getStaticProps makeStore config callback context w"

section \<open>withRedux: the wrapper component\<close>

text \<open>
  \<^verbatim>\<open>hydrate\<close>, the callback of lines 152 to 166, for the store \<^verbatim>\<open>store.current\<close> and the two
  snapshots of the render pass.
\<close>

definition hydrate :: "Config \<Rightarrow> store_ref \<Rightarrow> val \<Rightarrow> val \<Rightarrow> world \<Rightarrow> (error + unit) \<times> world" where
  "hydrate config s initialState initialStateFromGSPorGSSR w =
     (case (if truthy initialState
            then (case getDeserializedState initialState config of
                    Inl e \<Rightarrow> (Inl e, w)
                  | Inr p \<Rightarrow> (Inr (), dispatch s \<lparr>type = HYDRATE, payload = p\<rparr> w))
            else (Inr (), w)) of
        (Inl e, w1) \<Rightarrow> (Inl e, w1)
      | (Inr u, w1) \<Rightarrow>
          (if truthy initialStateFromGSPorGSSR
           then (case getDeserializedState initialStateFromGSPorGSSR config of
                   Inl e \<Rightarrow> (Inl e, w1)
                 | Inr p \<Rightarrow> (Inr (), dispatch s \<lparr>type = HYDRATE, payload = p\<rparr> w1))
           else (Inr (), w1)))"




text \<open>
  The values of the component's two \<^verbatim>\<open>useRef\<close> hooks. React keeps them from one render
  of a mounted component to the next; on the first render there are none yet.
\<close>

record Refs =
  isFirstRender :: bool
  storeRef :: store_ref


text \<open>
  The effect of lines 172 to 178, which React runs after the first render and after a
  render in which \<^verbatim>\<open>initialState\<close> or \<^verbatim>\<open>initialStateFromGSPorGSSR\<close> has changed.
\<close>

definition WrapperEffect :: "Config \<Rightarrow> Refs \<Rightarrow> val \<Rightarrow> val \<Rightarrow> world \<Rightarrow> (error + Refs) \<times> world" where
  "WrapperEffect config r initialState initialStateFromGSPorGSSR w =
     (if isFirstRender r then (Inr (r\<lparr>isFirstRender := False\<rparr>), w)
      else (case hydrate config (storeRef r) initialState initialStateFromGSPorGSSR w of
              (Inl e, w1) \<Rightarrow> (Inl e, w1)
            | (Inr u, w1) \<Rightarrow> (Inr r, w1)))"

text \<open>
  \<^verbatim>\<open>Wrapper.getInitialProps\<close>:
  \<^verbatim>\<open>(context.ctx ? getInitialAppProps(callback) : getInitialPageProps(callback))(context)\<close>
\<close>

definition WrapperGetInitialProps :: "MakeStore \<Rightarrow> Config \<Rightarrow> Callback \<Rightarrow> Context \<Rightarrow> world \<Rightarrow> (error + val) \<times> world" where
  "WrapperGetInitialProps makeStore config callback context w =
     (case ctx context of
        Some cx \<Rightarrow> getInitialAppProps makeStore config callback context w
      | None \<Rightarrow> getInitialPageProps makeStore config callback context w)"

section \<open>Example inputs\<close>

definition idReducer :: "val \<Rightarrow> action \<Rightarrow> val" where
  "idReducer s a = s"

text \<open>
  The reducer of a counter: \<^verbatim>\<open>HYDRATE\<close> overwrites the state with the payload, \<^verbatim>\<open>INCREMENT\<close>
  adds one.
\<close>

definition counterReducer :: "val \<Rightarrow> action \<Rightarrow> val" where
  "counterReducer s a =
     (if type a = HYDRATE then payload a
      else if type a = ''INCREMENT'' then (case s of VNum n \<Rightarrow> VNum (n + 1) | _ \<Rightarrow> s)
      else s)"

definition serverWorld :: world where
  "serverWorld = \<lparr>window = None, reqStore = Map.empty,
     stores = (\<lambda>_. \<lparr>state = VUndefined, reducer = idReducer\<rparr>), nextStore = 0,
     heap = (\<lambda>_. Map.empty), nextAddr = 0, makeStoreCalls = 0, console = []\<rparr>"

definition clientWorld :: world where
  "clientWorld = serverWorld\<lparr>window := Some Map.empty\<rparr>"

definition defaultConfig :: Config where
  "defaultConfig = \<lparr>serializeState = None, deserializeState = None, storeKey = None, debug = False\<rparr>"

definition counterStore :: Store where
  "counterStore = \<lparr>state = VNum 0, reducer = counterReducer\<rparr>"

definition makeCounterStore :: MakeStore where
  "makeCounterStore c w = Inr counterStore"

text \<open>A factory that throws on its first invocation and succeeds afterwards.\<close>

definition makeStoreFlaky :: MakeStore where
  "makeStoreFlaky c w = (if makeStoreCalls w = 0 then Inl (Thrown ''boom'') else Inr counterStore)"

definition pageContext :: "req_ref \<Rightarrow> Context" where
  "pageContext r = Context (Some r) None None"

definition appContext :: "req_ref \<Rightarrow> Context" where
  "appContext r = Context None None (Some (pageContext r))"

definition staticContext :: Context where
  "staticContext = Context None None None"

text \<open>An environment whose store 0 is a counter in the given state.\<close>

definition storeWorld :: "world \<Rightarrow> val \<Rightarrow> world" where
  "storeWorld w st = w\<lparr>stores := (stores w)(0 := \<lparr>state = st, reducer = counterReducer\<rparr>), nextStore := 1\<rparr>"

text \<open>A callback that dispatches \<^verbatim>\<open>INCREMENT\<close> to the store of its context and returns nothing.\<close>

definition incrementCallback :: Callback where
  "incrementCallback c w =
     (case store c of
        Some s \<Rightarrow> (Inr VUndefined, dispatch s \<lparr>type = ''INCREMENT'', payload = VUndefined\<rparr> w)
      | None \<Rightarrow> (Inl (Thrown ''no store''), w))"

text \<open>A pair of hooks that are inverses of each other, and a hook that throws.\<close>

definition shiftUp :: "val \<Rightarrow> error + val" where
  "shiftUp v = (case v of VNum n \<Rightarrow> Inr (VNum (n + 1)) | _ \<Rightarrow> Inr v)"

definition shiftDown :: "val \<Rightarrow> error + val" where
  "shiftDown v = (case v of VNum n \<Rightarrow> Inr (VNum (n - 1)) | _ \<Rightarrow> Inr v)"

definition throwingHook :: "val \<Rightarrow> error + val" where
  "throwingHook v = Inl (Thrown ''hook'')"

definition throwingConfig :: Config where
  "throwingConfig = \<lparr>serializeState = Some throwingHook, deserializeState = None,
     storeKey = None, debug = True\<rparr>"

definition shiftConfig :: Config where
  "shiftConfig = \<lparr>serializeState = Some shiftUp, deserializeState = Some shiftDown,
     storeKey = None, debug = False\<rparr>"

text \<open>
  A callback that dispatches \<^verbatim>\<open>INCREMENT\<close> and returns \<^verbatim>\<open>{props: {a: 1}}\<close>.
\<close>

definition propsCallback :: Callback where
  "propsCallback c w =
     (case store c of
        Some s \<Rightarrow>
          (case alloc [''a'' \<mapsto> VNum 1] (dispatch s \<lparr>type = ''INCREMENT'', payload = VUndefined\<rparr> w) of
             (a, w1) \<Rightarrow>
               (case alloc [''props'' \<mapsto> VRef a] w1 of
                  (b, w2) \<Rightarrow> (Inr (VRef b), w2)))
      | None \<Rightarrow> (Inl (Thrown ''no store''), w))"


text \<open>A configuration with a store key of its own, and one whose \<^verbatim>\<open>deserializeState\<close> throws.\<close>

definition keyedConfig :: Config where
  "keyedConfig = \<lparr>serializeState = None, deserializeState = None, storeKey = Some ''myStore'',
     debug = False\<rparr>"

definition throwingDeserializeConfig :: Config where
  "throwingDeserializeConfig = \<lparr>serializeState = None, deserializeState = Some throwingHook,
     storeKey = None, debug = False\<rparr>"

section \<open>Store acquisition\<close>

lemmas example_defs =
  clientWorld_def serverWorld_def defaultConfig_def throwingConfig_def shiftConfig_def
  counterStore_def makeCounterStore_def incrementCallback_def staticContext_def pageContext_def
  counterReducer_def throwingHook_def shiftUp_def shiftDown_def storeWorld_def propsCallback_def

lemmas program_defs =
  makeProps_def initStore_def createStore_def requestOf_def getStoreKey_def STOREKEY_def HYDRATE_def
  withStore_def withCtxStore_def dispatch_def getState_def getIsServer_def getSerializedState_def
  getDeserializedState_def alloc_def consoleLog_def consoleWarn_def getProp_def ownProps_def

lemma initStore_client_hit:
  "window w = Some win \<Longrightarrow> win (getStoreKey config) = Some s \<Longrightarrow>
   initStore makeStore config context w = (Inr s, w)"
  by (simp add: initStore_def)

lemma initStore_server_hit:
  "window w = None \<Longrightarrow> requestOf context = Some r \<Longrightarrow> reqStore w r = Some s \<Longrightarrow>
   initStore makeStore config context w = (Inr s, w)"
  by (simp add: initStore_def)

lemma initStore_server_miss_Inr:
  assumes "window w = None" "requestOf context = Some r"
    and "initStore makeStore config context w = (Inr s, w1)"
  shows "window w1 = None \<and> reqStore w1 r = Some s"
  using assms
  by (auto simp: initStore_def createStore_def Let_def split: option.splits sum.splits)

text \<open>
  C2. On the client (\<open>window w = Some win\<close>) the registry is keyed by \<open>k\<close>, which is
  \<^verbatim>\<open>config.storeKey\<close> when that is set to a non-empty string and \<^verbatim>\<open>STOREKEY\<close> when it is unset
  (or the empty string, which \<^verbatim>\<open>storeKey || STOREKEY\<close> takes for unset). When nothing is
  registered under \<open>k\<close> and the factory returns a store, \<^verbatim>\<open>initStore\<close> invokes the factory
  once, returns a new store reference and registers it under \<open>k\<close>; the next call, and every
  later call made while the registry holds that reference under \<open>k\<close>, returns the same
  reference for any context and factory and leaves the environment as it is: no second
  store is created and the factory is not invoked.
\<close>

theorem initStore_client_memoized:
  assumes win: "window w = Some win"
    and key: "(storeKey config = Some k \<and> k \<noteq> [])
              \<or> (storeKey config = None \<and> k = STOREKEY)
              \<or> (storeKey config = Some [] \<and> k = STOREKEY)"
    and miss: "win k = None"
    and mk: "makeStore context w = Inr st"
  shows "\<exists>w1. initStore makeStore config context w = (Inr (nextStore w), w1)
           \<and> stores w1 (nextStore w) = st
           \<and> window w1 = Some (win(k \<mapsto> nextStore w))
           \<and> makeStoreCalls w1 = Suc (makeStoreCalls w)
           \<and> nextStore w1 = Suc (nextStore w)
           \<and> initStore makeStore' config context' w1 = (Inr (nextStore w), w1)
           \<and> (\<forall>w2 win2. window w2 = Some win2 \<and> win2 k = Some (nextStore w)
                 \<longrightarrow> initStore makeStore' config context' w2 = (Inr (nextStore w), w2))"
proof -
  from key have k: "getStoreKey config = k"
    by (auto simp: getStoreKey_def)
  let ?w1 = "w\<lparr>makeStoreCalls := Suc (makeStoreCalls w),
        stores := (stores w)(nextStore w := st), nextStore := Suc (nextStore w),
        window := Some (win(k \<mapsto> nextStore w))\<rparr>"
  have first: "initStore makeStore config context w = (Inr (nextStore w), ?w1)"
    using win miss mk by (simp add: initStore_def createStore_def k)
  have again: "initStore makeStore' config context' ?w1 = (Inr (nextStore w), ?w1)"
    by (rule initStore_client_hit [where win = "win(k \<mapsto> nextStore w)"]) (simp_all add: k)
  have later: "\<forall>w2 win2. window w2 = Some win2 \<and> win2 k = Some (nextStore w)
                 \<longrightarrow> initStore makeStore' config context' w2 = (Inr (nextStore w), w2)"
    using k by (auto intro: initStore_client_hit)
  show ?thesis using first again later by simp
qed

theorem initStore_client_memoized_witness:
  "window clientWorld = Some Map.empty
   \<and> storeKey keyedConfig = Some ''myStore'' \<and> ''myStore'' \<noteq> []
   \<and> storeKey defaultConfig = None
   \<and> makeCounterStore staticContext clientWorld = Inr counterStore
   \<and> (\<exists>w1. initStore makeCounterStore keyedConfig staticContext clientWorld = (Inr 0, w1)
         \<and> stores w1 0 = counterStore
         \<and> window w1 = Some [''myStore'' \<mapsto> 0]
         \<and> initStore makeStoreFlaky keyedConfig (pageContext 7) w1 = (Inr 0, w1))
   \<and> (\<exists>w1. initStore makeCounterStore defaultConfig staticContext clientWorld = (Inr 0, w1)
         \<and> window w1 = Some [STOREKEY \<mapsto> 0]
         \<and> initStore makeStoreFlaky defaultConfig (pageContext 7) w1 = (Inr 0, w1))"
proof -
  have a: "\<exists>w1. initStore makeCounterStore keyedConfig staticContext clientWorld = (Inr 0, w1)
         \<and> stores w1 0 = counterStore
         \<and> window w1 = Some [''myStore'' \<mapsto> 0]
         \<and> initStore makeStoreFlaky keyedConfig (pageContext 7) w1 = (Inr 0, w1)"
    using initStore_client_memoized [of clientWorld Map.empty keyedConfig "''myStore''"
      makeCounterStore staticContext counterStore makeStoreFlaky "pageContext 7"]
    by (simp add: clientWorld_def serverWorld_def keyedConfig_def makeCounterStore_def) blast
  have b: "\<exists>w1. initStore makeCounterStore defaultConfig staticContext clientWorld = (Inr 0, w1)
         \<and> window w1 = Some [STOREKEY \<mapsto> 0]
         \<and> initStore makeStoreFlaky defaultConfig (pageContext 7) w1 = (Inr 0, w1)"
    using initStore_client_memoized [of clientWorld Map.empty defaultConfig STOREKEY
      makeCounterStore staticContext counterStore makeStoreFlaky "pageContext 7"]
    by (simp add: clientWorld_def serverWorld_def defaultConfig_def makeCounterStore_def) blast
  from a b show ?thesis
    by (simp add: clientWorld_def serverWorld_def keyedConfig_def defaultConfig_def makeCounterStore_def)
qed

text \<open>
  C3. On the server (\<open>window w = None\<close>): when the context exposes a request that carries no
  store and the factory returns one, \<^verbatim>\<open>initStore\<close> invokes the factory once, creates the
  store, attaches its reference to the request and returns it, and a call for a context
  that exposes the same request then returns the same reference and changes nothing; a
  request that carries a store gives that store without a call of the factory; whenever
  the first of two calls for the same request returns a store, the request carries it
  and the second call, like any later call made while the request carries it, returns
  it. When the context exposes no request, every call that returns has created a new
  store, the factory's (two successive calls return different references, the factory is
  invoked by each, nothing is attached to a request), and the call returns whenever the
  factory does.
\<close>

theorem initStore_server_request_scoped:
  assumes srv: "window w = None"
  shows "(requestOf c1 = Some r \<and> requestOf c2 = Some r \<and> reqStore w r = None
            \<and> makeStore c1 w = Inr st
          \<longrightarrow> (\<exists>w1. initStore makeStore config c1 w = (Inr (nextStore w), w1)
                 \<and> stores w1 (nextStore w) = st
                 \<and> reqStore w1 = (reqStore w)(r \<mapsto> nextStore w)
                 \<and> makeStoreCalls w1 = Suc (makeStoreCalls w)
                 \<and> nextStore w1 = Suc (nextStore w)
                 \<and> window w1 = None
                 \<and> initStore makeStore' config' c2 w1 = (Inr (nextStore w), w1)))
       \<and> (requestOf c2 = Some r \<and> reqStore w r = Some s
          \<longrightarrow> initStore makeStore config c2 w = (Inr s, w))
       \<and> (requestOf c1 = Some r \<and> requestOf c2 = Some r
            \<and> initStore makeStore config c1 w = (Inr s, w1)
          \<longrightarrow> reqStore w1 r = Some s \<and> window w1 = None
              \<and> initStore makeStore config c2 w1 = (Inr s, w1)
              \<and> (\<forall>w2. window w2 = None \<and> reqStore w2 r = Some s
                    \<longrightarrow> initStore makeStore config c2 w2 = (Inr s, w2)))
       \<and> (requestOf c1 = None \<and> requestOf c2 = None
            \<and> initStore makeStore config c1 w = (Inr s, w1)
            \<and> initStore makeStore config c2 w1 = (Inr s', w2)
          \<longrightarrow> s = nextStore w \<and> s' = nextStore w1 \<and> s' \<noteq> s
              \<and> makeStore c1 w = Inr (stores w1 s) \<and> makeStore c2 w1 = Inr (stores w2 s')
              \<and> makeStoreCalls w2 = makeStoreCalls w + 2 \<and> reqStore w2 = reqStore w)
       \<and> (requestOf c1 = None \<and> makeStore c1 w = Inr st
          \<longrightarrow> (\<exists>w'. initStore makeStore config c1 w = (Inr (nextStore w), w')
                     \<and> stores w' (nextStore w) = st
                     \<and> makeStoreCalls w' = Suc (makeStoreCalls w)
                     \<and> nextStore w' = Suc (nextStore w)
                     \<and> reqStore w' = reqStore w))"
proof (intro conjI impI)
  assume a: "requestOf c1 = Some r \<and> requestOf c2 = Some r \<and> reqStore w r = None
            \<and> makeStore c1 w = Inr st"
  let ?w1 = "w\<lparr>makeStoreCalls := Suc (makeStoreCalls w),
        stores := (stores w)(nextStore w := st), nextStore := Suc (nextStore w),
        reqStore := (reqStore w)(r \<mapsto> nextStore w)\<rparr>"
  from a srv have first: "initStore makeStore config c1 w = (Inr (nextStore w), ?w1)"
    by (simp add: initStore_def createStore_def)
  from a srv have again: "initStore makeStore' config' c2 ?w1 = (Inr (nextStore w), ?w1)"
    by (intro initStore_server_hit [where r = r]) simp_all
  from first again srv
  show "\<exists>w1. initStore makeStore config c1 w = (Inr (nextStore w), w1)
                 \<and> stores w1 (nextStore w) = st
                 \<and> reqStore w1 = (reqStore w)(r \<mapsto> nextStore w)
                 \<and> makeStoreCalls w1 = Suc (makeStoreCalls w)
                 \<and> nextStore w1 = Suc (nextStore w)
                 \<and> window w1 = None
                 \<and> initStore makeStore' config' c2 w1 = (Inr (nextStore w), w1)"
    by simp
next
  assume "requestOf c2 = Some r \<and> reqStore w r = Some s"
  with srv show "initStore makeStore config c2 w = (Inr s, w)"
    by (simp add: initStore_server_hit)
next
  assume a: "requestOf c1 = Some r \<and> requestOf c2 = Some r
            \<and> initStore makeStore config c1 w = (Inr s, w1)"
  then have m: "window w1 = None \<and> reqStore w1 r = Some s"
    using initStore_server_miss_Inr [OF srv] by blast
  then show "reqStore w1 r = Some s" "window w1 = None"
    by simp_all
  from m a show "initStore makeStore config c2 w1 = (Inr s, w1)"
    by (simp add: initStore_server_hit)
  from a show "\<forall>w2. window w2 = None \<and> reqStore w2 r = Some s
                    \<longrightarrow> initStore makeStore config c2 w2 = (Inr s, w2)"
    by (simp add: initStore_server_hit)
next
  assume a: "requestOf c1 = None \<and> requestOf c2 = None
            \<and> initStore makeStore config c1 w = (Inr s, w1)
            \<and> initStore makeStore config c2 w1 = (Inr s', w2)"
  then have r1: "requestOf c1 = None" and r2: "requestOf c2 = None"
    and i1: "initStore makeStore config c1 w = (Inr s, w1)"
    and i2: "initStore makeStore config c2 w1 = (Inr s', w2)"
    by simp_all
  from i1 r1 srv have 1: "createStore makeStore c1 w = (Inr s, w1)"
    by (simp add: initStore_def Let_def)
  with srv have w1: "s = nextStore w \<and> window w1 = None \<and> nextStore w1 = Suc (nextStore w)
      \<and> makeStoreCalls w1 = Suc (makeStoreCalls w) \<and> reqStore w1 = reqStore w
      \<and> makeStore c1 w = Inr (stores w1 s)"
    by (auto simp: createStore_def Let_def split: sum.splits)
  then have srv1: "window w1 = None"
    by simp
  from i2 r2 srv1 have 2: "createStore makeStore c2 w1 = (Inr s', w2)"
    by (simp add: initStore_def Let_def)
  then have w2: "s' = nextStore w1 \<and> makeStoreCalls w2 = Suc (makeStoreCalls w1) \<and> reqStore w2 = reqStore w1
      \<and> makeStore c2 w1 = Inr (stores w2 s')"
    by (auto simp: createStore_def Let_def split: sum.splits)
  from w1 w2 show "s = nextStore w" "s' = nextStore w1" "s' \<noteq> s"
    "makeStore c1 w = Inr (stores w1 s)" "makeStore c2 w1 = Inr (stores w2 s')"
    "makeStoreCalls w2 = makeStoreCalls w + 2" "reqStore w2 = reqStore w"
    by simp_all
next
  assume "requestOf c1 = None \<and> makeStore c1 w = Inr st"
  then show "\<exists>w'. initStore makeStore config c1 w = (Inr (nextStore w), w')
                     \<and> stores w' (nextStore w) = st
                     \<and> makeStoreCalls w' = Suc (makeStoreCalls w)
                     \<and> nextStore w' = Suc (nextStore w)
                     \<and> reqStore w' = reqStore w"
    using srv by (simp add: initStore_def createStore_def)
qed

theorem initStore_server_request_scoped_witness:
  "window serverWorld = None
   \<and> requestOf (appContext 3) = Some 3 \<and> requestOf (pageContext 3) = Some 3
   \<and> reqStore serverWorld 3 = None
   \<and> makeCounterStore (appContext 3) serverWorld = Inr counterStore
   \<and> fst (initStore makeCounterStore defaultConfig (appContext 3) serverWorld) = Inr 0
   \<and> stores (snd (initStore makeCounterStore defaultConfig (appContext 3) serverWorld)) 0 = counterStore
   \<and> reqStore (snd (initStore makeCounterStore defaultConfig (appContext 3) serverWorld)) 3 = Some 0
   \<and> makeStoreCalls (snd (initStore makeCounterStore defaultConfig (appContext 3) serverWorld)) = 1
   \<and> initStore makeStoreFlaky defaultConfig (pageContext 3)
         (snd (initStore makeCounterStore defaultConfig (appContext 3) serverWorld))
       = (Inr 0, snd (initStore makeCounterStore defaultConfig (appContext 3) serverWorld))
   \<and> requestOf staticContext = None
   \<and> fst (initStore makeCounterStore defaultConfig staticContext serverWorld) = Inr 0
   \<and> fst (initStore makeCounterStore defaultConfig staticContext
         (snd (initStore makeCounterStore defaultConfig staticContext serverWorld))) = Inr 1"
proof -
  let ?w1 = "snd (initStore makeCounterStore defaultConfig (appContext 3) serverWorld)"
  have srv: "window serverWorld = None"
    by (simp add: serverWorld_def)
  have r: "requestOf (appContext 3) = Some 3" "requestOf (pageContext 3) = Some 3"
    "requestOf staticContext = None"
    by (simp_all add: requestOf_def appContext_def pageContext_def staticContext_def)
  have m: "reqStore serverWorld 3 = None" "makeCounterStore (appContext 3) serverWorld = Inr counterStore"
    "nextStore serverWorld = 0" "makeStoreCalls serverWorld = 0"
    by (simp_all add: serverWorld_def makeCounterStore_def)
  have g1: "fst (initStore makeCounterStore defaultConfig staticContext serverWorld) = Inr 0"
    using r by (simp add: initStore_def createStore_def makeCounterStore_def serverWorld_def)
  have g2: "fst (initStore makeCounterStore defaultConfig staticContext
         (snd (initStore makeCounterStore defaultConfig staticContext serverWorld))) = Inr 1"
    using r by (simp add: initStore_def createStore_def makeCounterStore_def serverWorld_def)
  have hyp: "requestOf (appContext 3) = Some 3 \<and> requestOf (pageContext 3) = Some 3
      \<and> reqStore serverWorld 3 = None
      \<and> makeCounterStore (appContext 3) serverWorld = Inr counterStore"
    using r m by simp
  note t = initStore_server_request_scoped [OF srv, of "appContext 3" 3 "pageContext 3"
      makeCounterStore counterStore defaultConfig makeStoreFlaky defaultConfig]
  from t [THEN conjunct1, THEN mp, OF hyp]
  obtain w1 where w1': "initStore makeCounterStore defaultConfig (appContext 3) serverWorld
        = (Inr (nextStore serverWorld), w1)"
    "stores w1 (nextStore serverWorld) = counterStore"
    "reqStore w1 = (reqStore serverWorld)(3 \<mapsto> nextStore serverWorld)"
    "makeStoreCalls w1 = Suc (makeStoreCalls serverWorld)"
    "initStore makeStoreFlaky defaultConfig (pageContext 3) w1 = (Inr (nextStore serverWorld), w1)"
    by blast
  note w1 = w1' [unfolded m]
  from w1(1) have e: "?w1 = w1"
    by simp
  have f: "fst (initStore makeCounterStore defaultConfig (appContext 3) serverWorld) = Inr 0"
    by (simp add: w1(1))
  from w1(2-5) srv r m(1,2) f g1 g2 show ?thesis
    unfolding e by simp
qed

text \<open>
  C7. When no store is memoized for the call (none attached to the request that the
  context exposes on the server, none registered under the store key on the client, or
  no request at all) and the factory throws, \<^verbatim>\<open>initStore\<close> fails with the factory's error
  and the environment is unchanged but for the count of invocations: neither the
  request's field nor the registry of \<^verbatim>\<open>window\<close> is written and no store is created. The
  next call invokes the factory again: it fails again if the factory throws again, and if
  the factory succeeds it returns the new store and memoizes it where the scope has a
  request or a registry.
\<close>

theorem initStore_factory_throws:
  assumes thr: "makeStore context w = Inl e"
    and miss: "(case window w of
                  None \<Rightarrow> (case requestOf context of Some r \<Rightarrow> reqStore w r | None \<Rightarrow> None)
                | Some win \<Rightarrow> win (getStoreKey config)) = None"
    and w1: "w1 = w\<lparr>makeStoreCalls := Suc (makeStoreCalls w)\<rparr>"
  shows "initStore makeStore config context w = (Inl e, w1)
       \<and> reqStore w1 = reqStore w \<and> window w1 = window w
       \<and> stores w1 = stores w \<and> nextStore w1 = nextStore w
       \<and> (makeStore context w1 = Inl e'
            \<longrightarrow> initStore makeStore config context w1
                  = (Inl e', w\<lparr>makeStoreCalls := Suc (Suc (makeStoreCalls w))\<rparr>))
       \<and> (makeStore context w1 = Inr st
            \<longrightarrow> (\<exists>w2. initStore makeStore config context w1 = (Inr (nextStore w), w2)
                   \<and> stores w2 (nextStore w) = st
                   \<and> makeStoreCalls w2 = Suc (Suc (makeStoreCalls w))
                   \<and> (window w2 = None) = (window w = None)
                   \<and> (case window w2 of
                         None \<Rightarrow> (case requestOf context of Some r \<Rightarrow> reqStore w2 r | None \<Rightarrow> None)
                       | Some win \<Rightarrow> win (getStoreKey config))
                      = (if window w = None \<and> requestOf context = None then None
                         else Some (nextStore w))))"
proof -
  from miss consider
      (static) "window w = None" "requestOf context = None"
    | (request) r where "window w = None" "requestOf context = Some r" "reqStore w r = None"
    | (client) win where "window w = Some win" "win (getStoreKey config) = None"
    by (auto split: option.splits)
  then show ?thesis
  proof cases
    case static
    with thr show ?thesis
      unfolding w1 by (simp add: initStore_def createStore_def)
  next
    case request
    with thr show ?thesis
      unfolding w1 by (simp add: initStore_def createStore_def)
  next
    case client
    with thr show ?thesis
      unfolding w1 by (simp add: initStore_def createStore_def)
  qed
qed

theorem initStore_factory_throws_witness:
  "makeStoreFlaky (pageContext 3) serverWorld = Inl (Thrown ''boom'')
   \<and> reqStore serverWorld 3 = None \<and> window clientWorld = Some Map.empty
   \<and> initStore makeStoreFlaky defaultConfig (pageContext 3) serverWorld
       = (Inl (Thrown ''boom''), serverWorld\<lparr>makeStoreCalls := 1\<rparr>)
   \<and> initStore makeStoreFlaky defaultConfig staticContext serverWorld
       = (Inl (Thrown ''boom''), serverWorld\<lparr>makeStoreCalls := 1\<rparr>)
   \<and> initStore makeStoreFlaky defaultConfig staticContext clientWorld
       = (Inl (Thrown ''boom''), clientWorld\<lparr>makeStoreCalls := 1\<rparr>)
   \<and> window (clientWorld\<lparr>makeStoreCalls := 1\<rparr>) = Some Map.empty
   \<and> (\<exists>w2. initStore makeStoreFlaky defaultConfig (pageContext 3) (serverWorld\<lparr>makeStoreCalls := 1\<rparr>)
             = (Inr 0, w2) \<and> stores w2 0 = counterStore \<and> reqStore w2 3 = Some 0)
   \<and> (\<exists>w2. initStore makeStoreFlaky defaultConfig staticContext (clientWorld\<lparr>makeStoreCalls := 1\<rparr>)
             = (Inr 0, w2) \<and> stores w2 0 = counterStore
             \<and> (\<exists>win. window w2 = Some win \<and> win STOREKEY = Some 0))"
proof -
  have thr: "makeStoreFlaky (pageContext 3) serverWorld = Inl (Thrown ''boom'')"
    "makeStoreFlaky staticContext serverWorld = Inl (Thrown ''boom'')"
    "makeStoreFlaky staticContext clientWorld = Inl (Thrown ''boom'')"
    by (simp_all add: makeStoreFlaky_def serverWorld_def clientWorld_def)
  have ok: "makeStoreFlaky (pageContext 3) (serverWorld\<lparr>makeStoreCalls := Suc (makeStoreCalls serverWorld)\<rparr>)
      = Inr counterStore"
    "makeStoreFlaky staticContext (clientWorld\<lparr>makeStoreCalls := Suc (makeStoreCalls clientWorld)\<rparr>)
      = Inr counterStore"
    by (simp_all add: makeStoreFlaky_def)
  have m1: "(case window serverWorld of
               None \<Rightarrow> (case requestOf (pageContext 3) of Some r \<Rightarrow> reqStore serverWorld r | None \<Rightarrow> None)
             | Some win \<Rightarrow> win (getStoreKey defaultConfig)) = None"
    and m2: "(case window serverWorld of
               None \<Rightarrow> (case requestOf staticContext of Some r \<Rightarrow> reqStore serverWorld r | None \<Rightarrow> None)
             | Some win \<Rightarrow> win (getStoreKey defaultConfig)) = None"
    and m3: "(case window clientWorld of
               None \<Rightarrow> (case requestOf staticContext of Some r \<Rightarrow> reqStore clientWorld r | None \<Rightarrow> None)
             | Some win \<Rightarrow> win (getStoreKey defaultConfig)) = None"
    by (simp_all add: serverWorld_def clientWorld_def requestOf_def pageContext_def staticContext_def)
  have c: "makeStoreCalls serverWorld = 0" "makeStoreCalls clientWorld = 0"
    "nextStore serverWorld = 0" "nextStore clientWorld = 0"
    "window serverWorld = None" "window clientWorld = Some Map.empty"
    "reqStore serverWorld 3 = None" "requestOf (pageContext 3) = Some 3"
    "getStoreKey defaultConfig = STOREKEY"
    by (simp_all add: serverWorld_def clientWorld_def requestOf_def pageContext_def getStoreKey_def
        defaultConfig_def)
  note t1 = initStore_factory_throws [of makeStoreFlaky "pageContext 3" serverWorld "Thrown ''boom''"
      defaultConfig _ _ counterStore, OF thr(1) m1 refl]
  note t2 = initStore_factory_throws [of makeStoreFlaky staticContext serverWorld "Thrown ''boom''"
      defaultConfig, OF thr(2) m2 refl]
  note t3 = initStore_factory_throws [of makeStoreFlaky staticContext clientWorld "Thrown ''boom''"
      defaultConfig _ _ counterStore, OF thr(3) m3 refl]
  from t1 ok(1) have a: "initStore makeStoreFlaky defaultConfig (pageContext 3) serverWorld
       = (Inl (Thrown ''boom''), serverWorld\<lparr>makeStoreCalls := 1\<rparr>)"
    and a': "\<exists>w2. initStore makeStoreFlaky defaultConfig (pageContext 3) (serverWorld\<lparr>makeStoreCalls := 1\<rparr>)
             = (Inr 0, w2) \<and> stores w2 0 = counterStore \<and> reqStore w2 3 = Some 0"
    by (auto simp: c split: option.splits)
  from t2 have b: "initStore makeStoreFlaky defaultConfig staticContext serverWorld
       = (Inl (Thrown ''boom''), serverWorld\<lparr>makeStoreCalls := 1\<rparr>)"
    by (simp add: c)
  from t3 ok(2) have d: "initStore makeStoreFlaky defaultConfig staticContext clientWorld
       = (Inl (Thrown ''boom''), clientWorld\<lparr>makeStoreCalls := 1\<rparr>)"
    and d': "\<exists>w2. initStore makeStoreFlaky defaultConfig staticContext (clientWorld\<lparr>makeStoreCalls := 1\<rparr>)
             = (Inr 0, w2) \<and> stores w2 0 = counterStore
             \<and> (\<exists>win. window w2 = Some win \<and> win STOREKEY = Some 0)"
    by (auto simp: c split: option.splits)
  from a a' b d d' thr c show ?thesis
    by simp
qed

lemma getState_dispatch:
  "getState s (dispatch s a w) = reducer (stores w s) (getState s w) a"
  by (simp add: getState_def dispatch_def)

lemma reducer_dispatch:
  "reducer (stores (dispatch s a w) t) = reducer (stores w t)"
  by (simp add: dispatch_def)

section \<open>The nested page-level phase\<close>

text \<open>
  C4. When the context given to the page-level phase already carries a store,
  \<^verbatim>\<open>getInitialPageProps\<close> is the user callback itself, run on that same context in an
  environment that differs from the incoming one only by the warning on the console: no
  store is acquired or created, the factory is not invoked (the phase is the same for
  every factory and configuration), and the phase returns or fails exactly as the
  callback does.
\<close>

theorem getInitialPageProps_nested:
  assumes "store context = Some s"
  shows "getInitialPageProps makeStore config callback context w
           = callback context (w\<lparr>console := console w @ [Warn ''No need to wrap pages if _app was wrapped'']\<rparr>)
       \<and> getInitialPageProps makeStore' config' callback context w
           = getInitialPageProps makeStore config callback context w"
  using assms by (simp add: getInitialPageProps_def consoleWarn_def)

theorem getInitialPageProps_nested_witness:
  "store (withStore 0 (pageContext 3)) = Some 0
   \<and> getInitialPageProps makeStoreFlaky defaultConfig incrementCallback (withStore 0 (pageContext 3))
         (storeWorld serverWorld (VNum 0))
       = (Inr VUndefined,
          (storeWorld serverWorld (VNum 1))
            \<lparr>console := [Warn ''No need to wrap pages if _app was wrapped'']\<rparr>)"
  using getInitialPageProps_nested [of "withStore 0 (pageContext 3)" 0 makeStoreFlaky defaultConfig
      incrementCallback "storeWorld serverWorld (VNum 0)"]
  by (simp add: withStore_def pageContext_def incrementCallback_def storeWorld_def serverWorld_def
      dispatch_def counterReducer_def HYDRATE_def)

section \<open>Hydration\<close>

text \<open>
  C1, as stated, fails for a snapshot that is present but falsy: with the application-level
  snapshot 1 and the page-level snapshot 0, \<^verbatim>\<open>hydrate\<close> dispatches the first only and the
  counter ends at 1, where the two hydration actions in order end at 0.
\<close>

theorem hydrate_order_counterexample:
  "getState 0 (snd (hydrate defaultConfig 0 (VNum 1) (VNum 0) (storeWorld clientWorld (VNum 7)))) = VNum 1
   \<and> getState 0 (dispatch 0 \<lparr>type = HYDRATE, payload = VNum 0\<rparr>
        (dispatch 0 \<lparr>type = HYDRATE, payload = VNum 1\<rparr> (storeWorld clientWorld (VNum 7)))) = VNum 0"
  by (simp add: hydrate_def getDeserializedState_def defaultConfig_def getState_def dispatch_def
      storeWorld_def counterReducer_def)

text \<open>
  C1, amended. When both snapshots are truthy and \<^verbatim>\<open>deserializeState\<close> returns for both,
  \<^verbatim>\<open>hydrate\<close> dispatches the hydration action of the application-level snapshot and then
  that of the page-level snapshot: the final state of the store is the reducer applied
  to the first and then to the second. The effect that runs \<^verbatim>\<open>hydrate\<close> after a later render
  does the same.
\<close>

theorem hydrate_order:
  assumes "truthy initialState" and "truthy initialStateFromGSPorGSSR"
    and "getDeserializedState initialState config = Inr a"
    and "getDeserializedState initialStateFromGSPorGSSR config = Inr b"
  shows "hydrate config s initialState initialStateFromGSPorGSSR w
           = (Inr (), dispatch s \<lparr>type = HYDRATE, payload = b\<rparr>
                        (dispatch s \<lparr>type = HYDRATE, payload = a\<rparr> w))
       \<and> getState s (snd (hydrate config s initialState initialStateFromGSPorGSSR w))
           = reducer (stores w s)
               (reducer (stores w s) (getState s w) \<lparr>type = HYDRATE, payload = a\<rparr>)
               \<lparr>type = HYDRATE, payload = b\<rparr>
       \<and> (\<not> isFirstRender r \<longrightarrow>
            WrapperEffect config r initialState initialStateFromGSPorGSSR w
              = (Inr r, dispatch (storeRef r) \<lparr>type = HYDRATE, payload = b\<rparr>
                          (dispatch (storeRef r) \<lparr>type = HYDRATE, payload = a\<rparr> w)))"
  using assms by (simp add: hydrate_def WrapperEffect_def getState_dispatch reducer_dispatch)

theorem hydrate_order_witness:
  "truthy (VNum 1) \<and> truthy (VNum 5)
   \<and> getDeserializedState (VNum 1) defaultConfig = Inr (VNum 1)
   \<and> getDeserializedState (VNum 5) defaultConfig = Inr (VNum 5)
   \<and> \<not> isFirstRender \<lparr>isFirstRender = False, storeRef = 0\<rparr>
   \<and> getState 0 (snd (hydrate defaultConfig 0 (VNum 1) (VNum 5) (storeWorld clientWorld (VNum 7)))) = VNum 5
   \<and> getState 0 (snd (WrapperEffect defaultConfig \<lparr>isFirstRender = False, storeRef = 0\<rparr>
         (VNum 1) (VNum 5) (storeWorld clientWorld (VNum 7)))) = VNum 5"
  using hydrate_order [of "VNum 1" "VNum 5" defaultConfig "VNum 1" "VNum 5" 0 "storeWorld clientWorld (VNum 7)"
      "\<lparr>isFirstRender = False, storeRef = 0\<rparr>"]
  by (simp add: getDeserializedState_def defaultConfig_def storeWorld_def counterReducer_def getState_def
      dispatch_def)

lemma shift_inverse: "\<forall>x. \<exists>y. shiftUp x = Inr y \<and> shiftDown y = Inr x"
  by (simp add: shiftUp_def shiftDown_def split: val.splits)

text \<open>
  C8, as stated, fails for a state whose serialized snapshot is falsy: the hooks
  \<open>shiftUp\<close> and \<open>shiftDown\<close> are inverses of each other, the state -1 is serialized to 0,
  and \<^verbatim>\<open>hydrate\<close>, in either position, skips the snapshot 0 and leaves the counter at 7,
  where hydrating the state -1 directly ends at -1.
\<close>

theorem roundtrip_hydration_counterexample:
  "getSerializedState (VNum (- 1)) shiftConfig = Inr (VNum 0)
   \<and> getDeserializedState (VNum 0) shiftConfig = Inr (VNum (- 1))
   \<and> getState 0 (snd (hydrate shiftConfig 0 (VNum 0) VUndefined (storeWorld clientWorld (VNum 7)))) = VNum 7
   \<and> getState 0 (snd (hydrate shiftConfig 0 VUndefined (VNum 0) (storeWorld clientWorld (VNum 7)))) = VNum 7
   \<and> getState 0 (dispatch 0 \<lparr>type = HYDRATE, payload = VNum (- 1)\<rparr> (storeWorld clientWorld (VNum 7)))
       = VNum (- 1)
   \<and> getState 0 (snd (hydrate defaultConfig 0 (VNum (- 1)) VUndefined (storeWorld clientWorld (VNum 7))))
       = VNum (- 1)"
  by (simp add: hydrate_def getSerializedState_def getDeserializedState_def shiftConfig_def defaultConfig_def
      shiftUp_def shiftDown_def getState_def dispatch_def storeWorld_def counterReducer_def)

text \<open>
  C8, amended. For hooks \<^verbatim>\<open>serializeState\<close> and \<^verbatim>\<open>deserializeState\<close> that are inverses of
  each other and any state, deserializing the serialized state gives the state back; when
  the serialized snapshot is truthy, \<^verbatim>\<open>hydrate\<close> dispatches for it, as the application-level
  or as the page-level snapshot, alone or with another snapshot, the hydration action
  that carries the state itself; when it is falsy, \<^verbatim>\<open>hydrate\<close> dispatches nothing for it.
\<close>

theorem roundtrip_hydration:
  assumes ser: "serializeState config = Some ser"
    and de: "deserializeState config = Some de"
    and inv: "\<forall>x. \<exists>y. ser x = Inr y \<and> de y = Inr x"
  shows "\<exists>y. getSerializedState st config = Inr y
           \<and> getDeserializedState y config = Inr st
           \<and> (truthy y \<longrightarrow>
                hydrate config s y VUndefined w = (Inr (), dispatch s \<lparr>type = HYDRATE, payload = st\<rparr> w))
           \<and> (truthy y \<and> \<not> truthy b \<longrightarrow>
                hydrate config s y b w = (Inr (), dispatch s \<lparr>type = HYDRATE, payload = st\<rparr> w))
           \<and> (truthy y \<and> \<not> truthy a \<longrightarrow>
                hydrate config s a y w = (Inr (), dispatch s \<lparr>type = HYDRATE, payload = st\<rparr> w))
           \<and> (truthy y \<and> truthy b \<and> getDeserializedState b config = Inr b' \<longrightarrow>
                hydrate config s y b w
                  = (Inr (), dispatch s \<lparr>type = HYDRATE, payload = b'\<rparr>
                               (dispatch s \<lparr>type = HYDRATE, payload = st\<rparr> w)))
           \<and> (truthy y \<and> truthy a \<and> getDeserializedState a config = Inr a' \<longrightarrow>
                hydrate config s a y w
                  = (Inr (), dispatch s \<lparr>type = HYDRATE, payload = st\<rparr>
                               (dispatch s \<lparr>type = HYDRATE, payload = a'\<rparr> w)))
           \<and> (\<not> truthy y \<and> \<not> truthy a \<longrightarrow>
                hydrate config s y a w = (Inr (), w) \<and> hydrate config s a y w = (Inr (), w))"
proof -
  from inv obtain y where y: "ser st = Inr y" "de y = Inr st"
    by blast
  with ser de show ?thesis
    by (simp add: getSerializedState_def getDeserializedState_def hydrate_def)
qed

theorem roundtrip_hydration_witness:
  "serializeState shiftConfig = Some shiftUp \<and> deserializeState shiftConfig = Some shiftDown
   \<and> (\<forall>x. \<exists>y. shiftUp x = Inr y \<and> shiftDown y = Inr x)
   \<and> getSerializedState (VNum 4) shiftConfig = Inr (VNum 5)
   \<and> getDeserializedState (VNum 5) shiftConfig = Inr (VNum 4)
   \<and> truthy (VNum 5)
   \<and> getState 0 (snd (hydrate shiftConfig 0 (VNum 5) VUndefined (storeWorld clientWorld (VNum 7)))) = VNum 4
   \<and> getState 0 (snd (hydrate shiftConfig 0 VNull (VNum 5) (storeWorld clientWorld (VNum 7)))) = VNum 4"
proof -
  have s: "getSerializedState (VNum 4) shiftConfig = Inr (VNum 5)"
    by (simp add: getSerializedState_def shiftConfig_def shiftUp_def)
  from roundtrip_hydration [of shiftConfig shiftUp shiftDown "VNum 4" 0 "storeWorld clientWorld (VNum 7)"
      VUndefined VNull] shift_inverse s
  show ?thesis
    by (simp add: shiftConfig_def storeWorld_def counterReducer_def getState_def dispatch_def)
qed

section \<open>The phase routine\<close>

lemma initStore_serializeState:
  "initStore makeStore (config\<lparr>serializeState := f\<rparr>) context w = initStore makeStore config context w"
  by (simp add: initStore_def getStoreKey_def)

lemma alloc_simps:
  "fst (alloc ob w) = nextAddr w"
  "heap (snd (alloc ob w)) = (heap w)(nextAddr w := ob)"
  "nextAddr (snd (alloc ob w)) = Suc (nextAddr w)"
  "window (snd (alloc ob w)) = window w"
  "stores (snd (alloc ob w)) = stores w"
  by (simp_all add: alloc_def)

lemma hydrate_window:
  "hydrate config s a b (w\<lparr>window := x\<rparr>)
     = (fst (hydrate config s a b w), (snd (hydrate config s a b w))\<lparr>window := x\<rparr>)"
  by (simp add: hydrate_def dispatch_def split: sum.splits)


lemma makeProps_initStore_Inl:
  "initStore makeStore config context w = (Inl e, w1) \<Longrightarrow>
   makeProps makeStore config callback context isApp w = (Inl e, w1)"
  by (simp add: makeProps_def)

lemma makeProps_callback_Inl:
  "initStore makeStore config context w = (Inr s, w1) \<Longrightarrow>
   (case callback of
      None \<Rightarrow> (Inr VUndefined, if debug config then consoleLog ''1. getProps created store with state'' w1 else w1)
    | Some cb \<Rightarrow> cb (if isApp then withCtxStore s context else withStore s context)
        (if debug config then consoleLog ''1. getProps created store with state'' w1 else w1)) = (Inl e, w3) \<Longrightarrow>
   makeProps makeStore config callback context isApp w = (Inl e, w3)"
  by (simp add: makeProps_def Let_def)

text \<open>What \<^verbatim>\<open>makeProps\<close> does once the store is acquired and the callback has returned.\<close>

lemma makeProps_callback_Inr:
  "initStore makeStore config context w = (Inr s, w1) \<Longrightarrow>
   (case callback of
      None \<Rightarrow> (Inr VUndefined, if debug config then consoleLog ''1. getProps created store with state'' w1 else w1)
    | Some cb \<Rightarrow> cb (if isApp then withCtxStore s context else withStore s context)
        (if debug config then consoleLog ''1. getProps created store with state'' w1 else w1)) = (Inr v, w3) \<Longrightarrow>
   w4 = (if truthy v then w3 else snd (alloc Map.empty w3)) \<Longrightarrow>
   w5 = (if debug config then consoleLog ''3. getProps after dispatches has store state'' w4 else w4) \<Longrightarrow>
   makeProps makeStore config callback context isApp w =
     (case (if getIsServer w5 then getSerializedState (getState s w5) config else Inr (getState s w5)) of
        Inl e \<Rightarrow> (Inl e, w5)
      | Inr initialState \<Rightarrow>
          (Inr (VRef (nextAddr w5)),
           snd (alloc [''initialProps'' \<mapsto> (if truthy v then v else VRef (nextAddr w3)),
                       ''initialState'' \<mapsto> initialState] w5)))"
  by (simp add: makeProps_def Let_def alloc_def split: sum.splits)


lemma makeProps_InrE:
  assumes run: "makeProps makeStore config callback context isApp w = (Inr r, w')"
  obtains s w1 v w3 w5 st where
    "initStore makeStore config context w = (Inr s, w1)"
    "(case callback of
        None \<Rightarrow> (Inr VUndefined, if debug config then consoleLog ''1. getProps created store with state'' w1 else w1)
      | Some cb \<Rightarrow> cb (if isApp then withCtxStore s context else withStore s context)
          (if debug config then consoleLog ''1. getProps created store with state'' w1 else w1)) = (Inr v, w3)"
    "w5 = (if debug config
           then consoleLog ''3. getProps after dispatches has store state''
                  (if truthy v then w3 else snd (alloc Map.empty w3))
           else (if truthy v then w3 else snd (alloc Map.empty w3)))"
    "(if getIsServer w5 then getSerializedState (getState s w5) config else Inr (getState s w5)) = Inr st"
    "r = VRef (nextAddr w5)"
    "w' = snd (alloc [''initialProps'' \<mapsto> (if truthy v then v else VRef (nextAddr w3)),
                      ''initialState'' \<mapsto> st] w5)"
proof -
  obtain r1 w1 where i: "initStore makeStore config context w = (r1, w1)"
    by (cases "initStore makeStore config context w")
  show thesis
  proof (cases r1)
    case (Inl e)
    with i run show thesis
      by (simp add: makeProps_initStore_Inl)
  next
    case (Inr s)
    note i = i [unfolded Inr]
    let ?w2 = "if debug config then consoleLog ''1. getProps created store with state'' w1 else w1"
    obtain rc w3 where cb: "(case callback of
        None \<Rightarrow> (Inr VUndefined, ?w2)
      | Some cb \<Rightarrow> cb (if isApp then withCtxStore s context else withStore s context) ?w2) = (rc, w3)"
      by (cases "(case callback of
        None \<Rightarrow> (Inr VUndefined, ?w2)
      | Some cb \<Rightarrow> cb (if isApp then withCtxStore s context else withStore s context) ?w2)")
    show thesis
    proof (cases rc)
      case (Inl e)
      with i cb run show thesis
        by (simp add: makeProps_callback_Inl)
    next
      case (Inr v)
      note cb = cb [unfolded Inr]
      let ?w4 = "if truthy v then w3 else snd (alloc Map.empty w3)"
      let ?w5 = "if debug config
           then consoleLog ''3. getProps after dispatches has store state'' ?w4 else ?w4"
      note m = makeProps_callback_Inr [OF i cb refl refl]
      show thesis
      proof (cases "if getIsServer ?w5 then getSerializedState (getState s ?w5) config else Inr (getState s ?w5)")
        case (Inl e)
        with m run show thesis
          by simp
      next
        case (Inr st)
        with m run have "r = VRef (nextAddr ?w5)"
          and "w' = snd (alloc [''initialProps'' \<mapsto> (if truthy v then v else VRef (nextAddr w3)),
                      ''initialState'' \<mapsto> st] ?w5)"
          by simp_all
        with i cb Inr show thesis
          by (rule_tac that [of s w1 v w3 ?w5 st]) simp_all
      qed
    qed
  qed
qed


lemma makeProps_client:
  assumes cl: "window (snd (makeProps makeStore config callback context isApp w)) \<noteq> None"
  shows "makeProps makeStore (config\<lparr>serializeState := f\<rparr>) callback context isApp w
     = makeProps makeStore config callback context isApp w"
proof -
  let ?c = "config\<lparr>serializeState := f\<rparr>"
  obtain r1 w1 where i: "initStore makeStore config context w = (r1, w1)"
    by (cases "initStore makeStore config context w")
  then have i': "initStore makeStore ?c context w = (r1, w1)"
    by (simp add: initStore_serializeState)
  show ?thesis
  proof (cases r1)
    case (Inl e)
    with i i' show ?thesis
      by (simp add: makeProps_initStore_Inl)
  next
    case (Inr s)
    note i = i [unfolded Inr] and i' = i' [unfolded Inr]
    let ?w2 = "if debug config then consoleLog ''1. getProps created store with state'' w1 else w1"
    obtain rc w3 where cb: "(case callback of
        None \<Rightarrow> (Inr VUndefined, ?w2)
      | Some cb \<Rightarrow> cb (if isApp then withCtxStore s context else withStore s context) ?w2) = (rc, w3)"
      by (cases "(case callback of
        None \<Rightarrow> (Inr VUndefined, ?w2)
      | Some cb \<Rightarrow> cb (if isApp then withCtxStore s context else withStore s context) ?w2)")
    have d: "debug ?c = debug config"
      by simp
    have cb': "(case callback of
        None \<Rightarrow> (Inr VUndefined, if debug ?c then consoleLog ''1. getProps created store with state'' w1 else w1)
      | Some cb \<Rightarrow> cb (if isApp then withCtxStore s context else withStore s context)
          (if debug ?c then consoleLog ''1. getProps created store with state'' w1 else w1)) = (rc, w3)"
      unfolding d by (rule cb)
    show ?thesis
    proof (cases rc)
      case (Inl e)
      from makeProps_callback_Inl [OF i cb [unfolded Inl]] makeProps_callback_Inl [OF i' cb' [unfolded Inl]]
      show ?thesis
        by simp
    next
      case (Inr v)
      let ?w4 = "if truthy v then w3 else snd (alloc Map.empty w3)"
      let ?w5 = "if debug config
           then consoleLog ''3. getProps after dispatches has store state'' ?w4 else ?w4"
      note m = makeProps_callback_Inr [OF i cb [unfolded Inr] refl refl]
      have m': "makeProps makeStore ?c callback context isApp w =
         (case (if getIsServer ?w5 then getSerializedState (getState s ?w5) ?c else Inr (getState s ?w5)) of
            Inl e \<Rightarrow> (Inl e, ?w5)
          | Inr initialState \<Rightarrow>
              (Inr (VRef (nextAddr ?w5)),
               snd (alloc [''initialProps'' \<mapsto> (if truthy v then v else VRef (nextAddr w3)),
                           ''initialState'' \<mapsto> initialState] ?w5)))"
        using makeProps_callback_Inr [OF i' cb' [unfolded Inr] refl refl] unfolding d .
      have "window (snd (makeProps makeStore config callback context isApp w)) = window ?w5"
        unfolding m by (simp add: alloc_def split: sum.splits)
      with cl have "\<not> getIsServer ?w5"
        by (simp add: getIsServer_def)
      then show ?thesis
        unfolding m m' by simp
    qed
  qed
qed

lemma makeProps_initialState:
  assumes run: "makeProps makeStore config callback context isApp w = (Inr r, w')"
  shows "\<exists>s. fst (initStore makeStore config context w) = Inr s
           \<and> (if window w' = None
               then getSerializedState (getState s w') config = Inr (getProp w' r ''initialState'')
               else getProp w' r ''initialState'' = getState s w')"
proof -
  from run obtain s w1 v w3 w5 st where
    i: "initStore makeStore config context w = (Inr s, w1)"
    and "(case callback of
        None \<Rightarrow> (Inr VUndefined, if debug config then consoleLog ''1. getProps created store with state'' w1 else w1)
      | Some cb \<Rightarrow> cb (if isApp then withCtxStore s context else withStore s context)
          (if debug config then consoleLog ''1. getProps created store with state'' w1 else w1)) = (Inr v, w3)"
    and "w5 = (if debug config
           then consoleLog ''3. getProps after dispatches has store state''
                  (if truthy v then w3 else snd (alloc Map.empty w3))
           else (if truthy v then w3 else snd (alloc Map.empty w3)))"
    and st: "(if getIsServer w5 then getSerializedState (getState s w5) config else Inr (getState s w5)) = Inr st"
    and r: "r = VRef (nextAddr w5)"
    and w': "w' = snd (alloc [''initialProps'' \<mapsto> (if truthy v then v else VRef (nextAddr w3)),
                      ''initialState'' \<mapsto> st] w5)"
    by (rule makeProps_InrE)
  have g: "getProp w' r ''initialState'' = st"
    by (simp add: r w' getProp_def ownProps_def alloc_def)
  have e: "window w' = window w5" "getState s w' = getState s w5"
    by (simp_all add: w' alloc_def getState_def)
  from st i g e show ?thesis
    by (auto simp: getIsServer_def split: if_splits)
qed

text \<open>
  C10, as stated, fails for a snapshot that is present but falsy: with a
  \<^verbatim>\<open>deserializeState\<close> that throws whenever it is applied, \<^verbatim>\<open>hydrate\<close> returns normally on the
  snapshot 0 in either position (and fails on the snapshot 1): the hook is not applied to
  the snapshot 0, and with the hooks \<open>shiftUp\<close> and \<open>shiftDown\<close> the counter stays at 7.
\<close>

theorem serializeState_server_only_counterexample:
  "deserializeState throwingDeserializeConfig = Some throwingHook
   \<and> hydrate throwingDeserializeConfig 0 (VNum 0) VUndefined (storeWorld clientWorld (VNum 7))
       = (Inr (), storeWorld clientWorld (VNum 7))
   \<and> hydrate throwingDeserializeConfig 0 VUndefined (VNum 0) (storeWorld clientWorld (VNum 7))
       = (Inr (), storeWorld clientWorld (VNum 7))
   \<and> hydrate throwingDeserializeConfig 0 (VNum 1) VUndefined (storeWorld clientWorld (VNum 7))
       = (Inl (Thrown ''hook''), storeWorld clientWorld (VNum 7))
   \<and> getDeserializedState (VNum 0) shiftConfig = Inr (VNum (- 1))
   \<and> getState 0 (snd (hydrate shiftConfig 0 (VNum 0) VUndefined (storeWorld clientWorld (VNum 7)))) = VNum 7"
  by (simp add: hydrate_def getDeserializedState_def throwingDeserializeConfig_def throwingHook_def
      shiftConfig_def shiftDown_def getState_def storeWorld_def)

text \<open>
  C10, amended. When \<^verbatim>\<open>makeProps\<close> returns, the \<^verbatim>\<open>initialState\<close> of its result is the
  serialized state of the store on the server and the state itself on the client; on the
  client the result does not depend on \<^verbatim>\<open>serializeState\<close> at all (the hook is not invoked).
  \<^verbatim>\<open>hydrate\<close> does not look at the environment: it applies \<^verbatim>\<open>deserializeState\<close> to every
  truthy snapshot, application-level or page-level, alone or together, dispatches the
  result, and fails where the hook fails; a falsy snapshot is neither deserialized nor
  dispatched.
\<close>

theorem serializeState_server_only:
  "(makeProps makeStore config callback context isApp w = (Inr r, w') \<longrightarrow>
      (\<exists>s. fst (initStore makeStore config context w) = Inr s
          \<and> (if window w' = None
              then getSerializedState (getState s w') config = Inr (getProp w' r ''initialState'')
              else getProp w' r ''initialState'' = getState s w')))
   \<and> (window (snd (makeProps makeStore config callback context isApp w)) \<noteq> None \<longrightarrow>
        makeProps makeStore (config\<lparr>serializeState := f\<rparr>) callback context isApp w
          = makeProps makeStore config callback context isApp w)
   \<and> hydrate config s a b (w\<lparr>window := x\<rparr>)
        = (fst (hydrate config s a b w), (snd (hydrate config s a b w))\<lparr>window := x\<rparr>)
   \<and> (truthy a \<and> truthy b \<and> getDeserializedState a config = Inr a'
        \<and> getDeserializedState b config = Inr b' \<longrightarrow>
        hydrate config s a b w
          = (Inr (), dispatch s \<lparr>type = HYDRATE, payload = b'\<rparr>
                       (dispatch s \<lparr>type = HYDRATE, payload = a'\<rparr> w)))
   \<and> (truthy a \<and> \<not> truthy b \<and> getDeserializedState a config = Inr a' \<longrightarrow>
        hydrate config s a b w = (Inr (), dispatch s \<lparr>type = HYDRATE, payload = a'\<rparr> w))
   \<and> (\<not> truthy a \<and> truthy b \<and> getDeserializedState b config = Inr b' \<longrightarrow>
        hydrate config s a b w = (Inr (), dispatch s \<lparr>type = HYDRATE, payload = b'\<rparr> w))
   \<and> (truthy a \<and> getDeserializedState a config = Inl e \<longrightarrow>
        hydrate config s a b w = (Inl e, w))
   \<and> (\<not> truthy a \<and> truthy b \<and> getDeserializedState b config = Inl e \<longrightarrow>
        hydrate config s a b w = (Inl e, w))
   \<and> (truthy a \<and> truthy b \<and> getDeserializedState a config = Inr a'
        \<and> getDeserializedState b config = Inl e \<longrightarrow>
        hydrate config s a b w = (Inl e, dispatch s \<lparr>type = HYDRATE, payload = a'\<rparr> w))
   \<and> (\<not> truthy a \<and> \<not> truthy b \<longrightarrow> hydrate config s a b w = (Inr (), w))"
  using makeProps_initialState [of makeStore config callback "context" isApp w r w']
    makeProps_client [of makeStore config callback "context" isApp w f]
    hydrate_window [of config s a b x w]
  by (simp add: hydrate_def)

theorem serializeState_server_only_witness:
  "makeProps makeCounterStore throwingConfig (Some incrementCallback) staticContext False clientWorld
     = (Inr (VRef 1),
        snd (makeProps makeCounterStore throwingConfig (Some incrementCallback) staticContext False clientWorld))
   \<and> window (snd (makeProps makeCounterStore throwingConfig (Some incrementCallback) staticContext False
         clientWorld)) \<noteq> None
   \<and> getProp (snd (makeProps makeCounterStore throwingConfig (Some incrementCallback) staticContext False
         clientWorld)) (VRef 1) ''initialState'' = VNum 1
   \<and> makeProps makeCounterStore (throwingConfig\<lparr>serializeState := None\<rparr>) (Some incrementCallback)
         staticContext False clientWorld
       = makeProps makeCounterStore throwingConfig (Some incrementCallback) staticContext False clientWorld
   \<and> fst (makeProps makeCounterStore throwingConfig (Some incrementCallback) staticContext False serverWorld)
       = Inl (Thrown ''hook'')
   \<and> \<not> truthy VUndefined \<and> truthy (VNum 5)
   \<and> getDeserializedState (VNum 5) shiftConfig = Inr (VNum 4)
   \<and> getState 0 (snd (hydrate shiftConfig 0 VUndefined (VNum 5) (storeWorld serverWorld (VNum 7)))) = VNum 4
   \<and> getState 0 (snd (hydrate shiftConfig 0 (VNum 5) VUndefined (storeWorld clientWorld (VNum 7)))) = VNum 4"
proof -
  let ?w' = "snd (makeProps makeCounterStore throwingConfig (Some incrementCallback) staticContext False
         clientWorld)"
  have f: "fst (makeProps makeCounterStore throwingConfig (Some incrementCallback) staticContext False
         clientWorld) = Inr (VRef 1)"
    by (simp add: program_defs example_defs Let_def)
  then have run: "makeProps makeCounterStore throwingConfig (Some incrementCallback) staticContext False
         clientWorld = (Inr (VRef 1), ?w')"
    by (simp add: prod_eq_iff)
  have cl: "window ?w' \<noteq> None"
    by (simp add: program_defs example_defs Let_def)
  have st: "getState 0 ?w' = VNum 1"
    by (simp add: program_defs example_defs Let_def)
  have i: "fst (initStore makeCounterStore throwingConfig staticContext clientWorld) = Inr 0"
    by (simp add: program_defs example_defs Let_def)
  have srv: "fst (makeProps makeCounterStore throwingConfig (Some incrementCallback) staticContext False
          serverWorld) = Inl (Thrown ''hook'')"
    by (simp add: program_defs example_defs Let_def)
  note t = serializeState_server_only [of makeCounterStore throwingConfig "Some incrementCallback"
      staticContext False clientWorld "VRef 1" ?w' None]
  from t [THEN conjunct1, THEN mp, OF run] cl st i
  have g: "getProp ?w' (VRef 1) ''initialState'' = VNum 1"
    by auto
  from t [THEN conjunct2, THEN conjunct1, THEN mp, OF cl]
  have m: "makeProps makeCounterStore (throwingConfig\<lparr>serializeState := None\<rparr>) (Some incrementCallback)
         staticContext False clientWorld
       = makeProps makeCounterStore throwingConfig (Some incrementCallback) staticContext False clientWorld" .
  have d: "getDeserializedState (VNum 5) shiftConfig = Inr (VNum 4)"
    by (simp add: getDeserializedState_def shiftConfig_def shiftDown_def)
  have h1: "hydrate shiftConfig 0 VUndefined (VNum 5) (storeWorld serverWorld (VNum 7))
      = (Inr (), dispatch 0 \<lparr>type = HYDRATE, payload = VNum 4\<rparr> (storeWorld serverWorld (VNum 7)))"
    using serializeState_server_only [of _ shiftConfig _ _ _ "storeWorld serverWorld (VNum 7)" _ _ _
        0 VUndefined "VNum 5" _ _ "VNum 4"] d
    by simp
  have h2: "hydrate shiftConfig 0 (VNum 5) VUndefined (storeWorld clientWorld (VNum 7))
      = (Inr (), dispatch 0 \<lparr>type = HYDRATE, payload = VNum 4\<rparr> (storeWorld clientWorld (VNum 7)))"
    using serializeState_server_only [of _ shiftConfig _ _ _ "storeWorld clientWorld (VNum 7)" _ _ _
        0 "VNum 5" VUndefined _ "VNum 4"] d
    by simp
  have e: "getState 0 (dispatch 0 \<lparr>type = HYDRATE, payload = VNum 4\<rparr> (storeWorld serverWorld (VNum 7))) = VNum 4"
    "getState 0 (dispatch 0 \<lparr>type = HYDRATE, payload = VNum 4\<rparr> (storeWorld clientWorld (VNum 7))) = VNum 4"
    by (simp_all add: getState_def dispatch_def storeWorld_def counterReducer_def)
  from run cl g m srv d e show ?thesis
    unfolding h1 h2 by simp
qed

section \<open>Props composition and the static and request-time phases\<close>

lemma allocated_Ref [simp]: "allocated w (VRef a) = (a < nextAddr w)"
  by (simp add: allocated_def)

lemma ownProps_heap_cong:
  "allocated w v \<Longrightarrow> (\<forall>a < nextAddr w. heap w' a = heap w a) \<Longrightarrow> ownProps w' v = ownProps w v"
  by (cases v) (simp_all add: ownProps_def)




text \<open>
  C9, as stated, fails: for a callback that returns \<^verbatim>\<open>{props: {a: 1}}\<close> the request-time phase
  returns \<^verbatim>\<open>{props: {initialState: 1, a: 1}}\<close>, an object with neither \<^verbatim>\<open>initialProps\<close> nor
  \<^verbatim>\<open>initialState\<close> of its own.
\<close>

theorem getServerSideProps_result_counterexample:
  "fst (getServerSideProps makeCounterStore defaultConfig (Some propsCallback) (pageContext 3) serverWorld)
     = Inr (VRef 4)
   \<and> heap (snd (getServerSideProps makeCounterStore defaultConfig (Some propsCallback) (pageContext 3)
        serverWorld)) 4 = [''props'' \<mapsto> VRef 3]
   \<and> heap (snd (getServerSideProps makeCounterStore defaultConfig (Some propsCallback) (pageContext 3)
        serverWorld)) 3 = [''initialState'' \<mapsto> VNum 1, ''a'' \<mapsto> VNum 1]
   \<and> getProp (snd (getServerSideProps makeCounterStore defaultConfig (Some propsCallback) (pageContext 3)
        serverWorld)) (VRef 4) ''initialProps'' = VUndefined
   \<and> getProp (snd (getServerSideProps makeCounterStore defaultConfig (Some propsCallback) (pageContext 3)
        serverWorld)) (VRef 4) ''initialState'' = VUndefined"
  by (simp add: getServerSideProps_def getStaticProps_def program_defs example_defs propsCallback_def
      Let_def numeral_3_eq_3)


lemma getServerSideProps_object:
  assumes acq: "initStore makeStore config context w = (Inr s, w1)"
    and cb: "cb (withStore s context)
               (if debug config then consoleLog ''1. getProps created store with state'' w1 else w1)
             = (Inr v, w3)"
    and v: "truthy v" and av: "allocated w3 v" and ap: "allocated w3 (getProp w3 v ''props'')"
    and srv: "window w3 = None"
    and ser: "getSerializedState (getState s w3) config = Inr st"
  shows "\<exists>w'. getServerSideProps makeStore config (Some cb) context w
                 = (Inr (VRef (nextAddr w3 + 2)), w')
           \<and> heap w' (nextAddr w3 + 2) = (ownProps w3 v)(''props'' \<mapsto> VRef (nextAddr w3 + 1))
           \<and> heap w' (nextAddr w3 + 1) = [''initialState'' \<mapsto> st] ++ ownProps w3 (getProp w3 v ''props'')
           \<and> (\<forall>a < nextAddr w3. heap w' a = heap w3 a)"
proof -
  define w5 where "w5 = (if debug config
      then consoleLog ''3. getProps after dispatches has store state'' w3 else w3)"
  define w6 where "w6 = snd (alloc [''initialProps'' \<mapsto> v, ''initialState'' \<mapsto> st] w5)"
  let ?n = "nextAddr w3"
  have cb': "(case Some cb of
      None \<Rightarrow> (Inr VUndefined, if debug config then consoleLog ''1. getProps created store with state'' w1 else w1)
    | Some cb \<Rightarrow> cb (if False then withCtxStore s context else withStore s context)
        (if debug config then consoleLog ''1. getProps created store with state'' w1 else w1)) = (Inr v, w3)"
    using cb by simp
  have w4: "w3 = (if truthy v then w3 else snd (alloc Map.empty w3))"
    using v by simp
  have w5: "heap w5 = heap w3" "nextAddr w5 = ?n" "getIsServer w5" "getState s w5 = getState s w3"
    using srv by (simp_all add: w5_def consoleLog_def getIsServer_def getState_def)
  have mp: "makeProps makeStore config (Some cb) context False w = (Inr (VRef ?n), w6)"
    using makeProps_callback_Inr [OF acq cb' w4 w5_def] w5 ser v by (simp add: w6_def)
  have h6: "heap w6 = (heap w3)(?n := [''initialProps'' \<mapsto> v, ''initialState'' \<mapsto> st])"
    and n6: "nextAddr w6 = Suc ?n"
    using w5 by (simp_all add: w6_def alloc_def)
  have ip: "getProp w6 (VRef ?n) ''initialProps'' = v"
    by (simp add: getProp_def ownProps_def h6)
  have ov: "ownProps w6 v = ownProps w3 v"
    using av by (intro ownProps_heap_cong) (simp_all add: h6)
  then have pv: "getProp w6 v ''props'' = getProp w3 v ''props''"
    by (simp add: getProp_def)
  have op: "ownProps w6 (getProp w3 v ''props'') = ownProps w3 (getProp w3 v ''props'')"
    using ap by (intro ownProps_heap_cong) (simp_all add: h6)
  have wp: "(ownProps w6 (VRef ?n))(''initialProps'' := None) = [''initialState'' \<mapsto> st]"
    by (auto simp: ownProps_def h6)
  show ?thesis
    unfolding getServerSideProps_def getStaticProps_def mp
    by (simp add: Let_def ip ov pv op wp) (simp add: alloc_def h6 n6)
qed


lemma getServerSideProps_nothing:
  assumes acq: "initStore makeStore config context w = (Inr s, w1)"
    and cb: "cb (withStore s context)
               (if debug config then consoleLog ''1. getProps created store with state'' w1 else w1)
             = (Inr v, w3)"
    and v: "\<not> truthy v"
    and srv: "window w3 = None"
    and ser: "getSerializedState (getState s w3) config = Inr st"
  shows "\<exists>w'. getServerSideProps makeStore config (Some cb) context w
                 = (Inr (VRef (nextAddr w3 + 3)), w')
           \<and> heap w' (nextAddr w3 + 3) = [''props'' \<mapsto> VRef (nextAddr w3 + 2)]
           \<and> heap w' (nextAddr w3 + 2) = [''initialState'' \<mapsto> st]
           \<and> (\<forall>a < nextAddr w3. heap w' a = heap w3 a)"
proof -
  define w4 where "w4 = snd (alloc Map.empty w3)"
  define w5 where "w5 = (if debug config
      then consoleLog ''3. getProps after dispatches has store state'' w4 else w4)"
  define w6 where "w6 = snd (alloc [''initialProps'' \<mapsto> VRef (nextAddr w3), ''initialState'' \<mapsto> st] w5)"
  let ?n = "nextAddr w3"
  have cb': "(case Some cb of
      None \<Rightarrow> (Inr VUndefined, if debug config then consoleLog ''1. getProps created store with state'' w1 else w1)
    | Some cb \<Rightarrow> cb (if False then withCtxStore s context else withStore s context)
        (if debug config then consoleLog ''1. getProps created store with state'' w1 else w1)) = (Inr v, w3)"
    using cb by simp
  have w4: "w4 = (if truthy v then w3 else snd (alloc Map.empty w3))"
    using v by (simp add: w4_def)
  have w5: "heap w5 = (heap w3)(?n := Map.empty)" "nextAddr w5 = Suc ?n" "getIsServer w5"
    "getState s w5 = getState s w3"
    using srv by (simp_all add: w5_def w4_def alloc_def consoleLog_def getIsServer_def getState_def)
  have mp: "makeProps makeStore config (Some cb) context False w = (Inr (VRef (Suc ?n)), w6)"
    using makeProps_callback_Inr [OF acq cb' w4 w5_def] w5 ser v by (simp add: w6_def)
  have h6: "heap w6 = (heap w3)(?n := Map.empty,
      Suc ?n := [''initialProps'' \<mapsto> VRef ?n, ''initialState'' \<mapsto> st])"
    and n6: "nextAddr w6 = Suc (Suc ?n)"
    using w5 by (simp_all add: w6_def alloc_def)
  have ip: "getProp w6 (VRef (Suc ?n)) ''initialProps'' = VRef ?n"
    by (simp add: getProp_def ownProps_def h6)
  have ov: "ownProps w6 (VRef ?n) = Map.empty"
    by (simp add: ownProps_def h6)
  then have pv: "getProp w6 (VRef ?n) ''props'' = VUndefined"
    by (simp add: getProp_def)
  have op: "ownProps w6 VUndefined = Map.empty"
    by (simp add: ownProps_def)
  have wp: "(ownProps w6 (VRef (Suc ?n)))(''initialProps'' := None) = [''initialState'' \<mapsto> st]"
    by (auto simp: ownProps_def h6)
  show ?thesis
    unfolding getServerSideProps_def getStaticProps_def mp
    by (simp add: Let_def ip ov pv op wp) (simp add: alloc_def h6 n6)
qed

text \<open>
  C9, amended. On the server, when \<^verbatim>\<open>initStore\<close> returns the store for the context, the
  callback, run on the context with that store, returns, and \<^verbatim>\<open>serializeState\<close> returns for
  the state of the store after the callback, \<^verbatim>\<open>getServerSideProps\<close> returns a new object
  \<^verbatim>\<open>{...settings, props: {initialState, ...props}}\<close>, where \<^verbatim>\<open>{props, ...settings}\<close> is the
  callback's result (an object, or \<^verbatim>\<open>{}\<close> when the callback returns nothing) and
  \<^verbatim>\<open>initialState\<close> the serialized state: the callback's result is unwrapped, not kept nested
  under \<^verbatim>\<open>initialProps\<close>.
\<close>

theorem getServerSideProps_result:
  assumes acq: "initStore makeStore config context w = (Inr s, w1)"
    and cb: "cb (withStore s context)
               (if debug config then consoleLog ''1. getProps created store with state'' w1 else w1)
             = (Inr v, w3)"
    and srv: "window w3 = None"
    and ser: "getSerializedState (getState s w3) config = Inr st"
  shows "(truthy v \<and> allocated w3 v \<and> allocated w3 (getProp w3 v ''props'') \<longrightarrow>
           (\<exists>w'. getServerSideProps makeStore config (Some cb) context w
                   = (Inr (VRef (nextAddr w3 + 2)), w')
              \<and> heap w' (nextAddr w3 + 2) = (ownProps w3 v)(''props'' \<mapsto> VRef (nextAddr w3 + 1))
              \<and> heap w' (nextAddr w3 + 1)
                  = [''initialState'' \<mapsto> st] ++ ownProps w3 (getProp w3 v ''props'')
              \<and> (\<forall>a < nextAddr w3. heap w' a = heap w3 a)))
       \<and> (\<not> truthy v \<longrightarrow>
           (\<exists>w'. getServerSideProps makeStore config (Some cb) context w
                   = (Inr (VRef (nextAddr w3 + 3)), w')
              \<and> heap w' (nextAddr w3 + 3) = [''props'' \<mapsto> VRef (nextAddr w3 + 2)]
              \<and> heap w' (nextAddr w3 + 2) = [''initialState'' \<mapsto> st]
              \<and> (\<forall>a < nextAddr w3. heap w' a = heap w3 a)))"
proof (intro conjI impI)
  assume "truthy v \<and> allocated w3 v \<and> allocated w3 (getProp w3 v ''props'')"
  then have "truthy v" "allocated w3 v" "allocated w3 (getProp w3 v ''props'')"
    by simp_all
  then show "\<exists>w'. getServerSideProps makeStore config (Some cb) context w
                   = (Inr (VRef (nextAddr w3 + 2)), w')
              \<and> heap w' (nextAddr w3 + 2) = (ownProps w3 v)(''props'' \<mapsto> VRef (nextAddr w3 + 1))
              \<and> heap w' (nextAddr w3 + 1)
                  = [''initialState'' \<mapsto> st] ++ ownProps w3 (getProp w3 v ''props'')
              \<and> (\<forall>a < nextAddr w3. heap w' a = heap w3 a)"
    by (rule getServerSideProps_object [where cb = cb, OF acq cb _ _ _ srv ser])
next
  assume "\<not> truthy v"
  then show "\<exists>w'. getServerSideProps makeStore config (Some cb) context w
                   = (Inr (VRef (nextAddr w3 + 3)), w')
              \<and> heap w' (nextAddr w3 + 3) = [''props'' \<mapsto> VRef (nextAddr w3 + 2)]
              \<and> heap w' (nextAddr w3 + 2) = [''initialState'' \<mapsto> st]
              \<and> (\<forall>a < nextAddr w3. heap w' a = heap w3 a)"
    by (rule getServerSideProps_nothing [where cb = cb, OF acq cb _ srv ser])
qed

theorem getServerSideProps_result_witness:
  "initStore makeCounterStore defaultConfig (pageContext 3) serverWorld
     = (Inr 0, snd (initStore makeCounterStore defaultConfig (pageContext 3) serverWorld))
   \<and> propsCallback (withStore 0 (pageContext 3))
         (snd (initStore makeCounterStore defaultConfig (pageContext 3) serverWorld))
       = (Inr (VRef 1), snd (propsCallback (withStore 0 (pageContext 3))
           (snd (initStore makeCounterStore defaultConfig (pageContext 3) serverWorld))))
   \<and> fst (getServerSideProps makeCounterStore defaultConfig (Some propsCallback) (pageContext 3) serverWorld)
       = Inr (VRef 4)
   \<and> heap (snd (getServerSideProps makeCounterStore defaultConfig (Some propsCallback) (pageContext 3)
        serverWorld)) 3 = [''initialState'' \<mapsto> VNum 1, ''a'' \<mapsto> VNum 1]"
proof -
  let ?w1 = "snd (initStore makeCounterStore defaultConfig (pageContext 3) serverWorld)"
  let ?w3 = "snd (propsCallback (withStore 0 (pageContext 3)) ?w1)"
  have acq: "initStore makeCounterStore defaultConfig (pageContext 3) serverWorld = (Inr 0, ?w1)"
    by (simp add: prod_eq_iff program_defs example_defs)
  have cb: "propsCallback (withStore 0 (pageContext 3))
              (if debug defaultConfig then consoleLog ''1. getProps created store with state'' ?w1 else ?w1)
            = (Inr (VRef 1), ?w3)"
    by (simp add: prod_eq_iff program_defs example_defs propsCallback_def)
  have n: "nextAddr ?w3 = 2"
    by (simp add: program_defs example_defs propsCallback_def)
  have v: "truthy (VRef 1)"
    by simp
  have av: "allocated ?w3 (VRef 1)"
    by (simp add: n)
  have pv: "getProp ?w3 (VRef 1) ''props'' = VRef 0"
    by (simp add: program_defs example_defs propsCallback_def)
  have ap: "allocated ?w3 (getProp ?w3 (VRef 1) ''props'')"
    unfolding pv by (simp add: n)
  have srv: "window ?w3 = None"
    by (simp add: program_defs example_defs propsCallback_def)
  have ser: "getSerializedState (getState 0 ?w3) defaultConfig = Inr (VNum 1)"
    by (simp add: program_defs example_defs propsCallback_def)
  have o: "ownProps ?w3 (VRef 0) = [''a'' \<mapsto> VNum 1]"
    by (simp add: program_defs example_defs propsCallback_def)
  from getServerSideProps_result [where cb = propsCallback, OF acq cb srv ser] v av ap obtain w' where
    "getServerSideProps makeCounterStore defaultConfig (Some propsCallback) (pageContext 3) serverWorld
       = (Inr (VRef (nextAddr ?w3 + 2)), w')"
    and "heap w' (nextAddr ?w3 + 1) = [''initialState'' \<mapsto> VNum 1] ++ ownProps ?w3 (getProp ?w3 (VRef 1) ''props'')"
    by blast
  then have "fst (getServerSideProps makeCounterStore defaultConfig (Some propsCallback) (pageContext 3) serverWorld)
       = Inr (VRef 4)"
    and "heap (snd (getServerSideProps makeCounterStore defaultConfig (Some propsCallback) (pageContext 3)
        serverWorld)) 3 = [''initialState'' \<mapsto> VNum 1, ''a'' \<mapsto> VNum 1]"
    unfolding n pv o by (simp_all add: map_add_def fun_eq_iff)
  with acq cb show ?thesis
    by (simp add: defaultConfig_def)
qed

section \<open>The wrapper component and its props\<close>





















end
